theory Spec2Isabelle
  imports Complex_Main
begin

section \<open>The weather widget of \<open>src/components/WeatherApp.tsx\<close>\<close>

text \<open>
  The component keeps five pieces of React state (\<open>city\<close>, \<open>weatherData\<close>,
  \<open>forecastData\<close>, \<open>loading\<close>, \<open>error\<close>), talks to the weather API with
  \<open>fetch\<close> and renders the state. The model below passes the state explicitly. The
  network is an oracle that answers each request; every request and every settlement of
  a request is appended to a trace kept beside the state, so that the order of the
  network effects can be stated.
\<close>

subsection \<open>Numbers, strings\<close>

text \<open>
  A JavaScript \<open>number\<close>. Every finite double is a rational, and on a finite double
  \<open>Math.round\<close> is exact (below \<open>2^52\<close> the result is a representable integer,
  from there on the argument already is an integer), so the finite values are modelled by
  \<open>rat\<close>. The sign of zero is not kept: \<open>-0\<close> is displayed as \<open>0\<close>.
\<close>

datatype number = Finite rat | PosInfinity | NegInfinity | NaN

text \<open>\<open>Math.round\<close>: the nearest integer, a tie going towards \<open>+\<infinity>\<close>; the
  non-finite values are returned as they are.\<close>

fun Math_round :: "number \<Rightarrow> number" where
  "Math_round (Finite x) = Finite (of_int \<lfloor>x + 1 / 2\<rfloor>)"
| "Math_round PosInfinity = PosInfinity"
| "Math_round NegInfinity = NegInfinity"
| "Math_round NaN = NaN"

text \<open>
  Strings are \<open>char list\<close>, one \<open>char\<close> per code unit below 256. In that range
  \<open>String.prototype.trim\<close> removes TAB, LF, VT, FF, CR, SPACE and NBSP from both
  ends; the white space of the higher planes is outside the model.
\<close>

definition isWhiteSpace :: "char \<Rightarrow> bool" where
  "isWhiteSpace c \<longleftrightarrow> of_char c \<in> {9, 10, 11, 12, 13, 32, 160 :: nat}"

definition trim :: "string \<Rightarrow> string" where
  "trim s = rev (dropWhile isWhiteSpace (rev (dropWhile isWhiteSpace s)))"

text \<open>\<open>Array.prototype.slice(start, fin)\<close> with its relative indices.\<close>

definition slice :: "int \<Rightarrow> int \<Rightarrow> 'a list \<Rightarrow> 'a list" where
  "slice start fin xs =
     (let len = int (length xs);
          k = (if start < 0 then max (len + start) 0 else min start len);
          final = (if fin < 0 then max (len + fin) 0 else min fin len)
      in take (nat (final - k)) (drop (nat k) xs))"

subsection \<open>The API's response shapes\<close>

record condition =
  text' :: string
  icon :: string

record location =
  name :: string
  country :: string

record current =
  temp_c :: number
  humidity :: number
  wind_kph :: number
  condition :: condition

record WeatherData =
  location :: location
  current :: current

text \<open>The \<open>condition\<close> of a forecast day is the field \<open>day_condition\<close>, the name
  \<open>condition\<close> being taken by the record above.\<close>

record day =
  avgtemp_c :: number
  day_condition :: condition

record forecastday =
  date :: string
  day :: day

record forecast =
  forecastday :: "forecastday list"

record ForecastData =
  forecast :: forecast

subsection \<open>Exceptions, responses, the network\<close>

text \<open>A thrown value: an \<open>Error\<close> with its message, or anything that is not an
  instance of \<open>Error\<close>.\<close>

datatype thrown = ErrorObj string | NonError

text \<open>What \<open>await response.json()\<close> does: it yields the parsed body, throws, or
  never settles.\<close>

datatype 'a body = Parsed 'a | ParseThrows thrown | ParsePending

datatype 'a response = Response (ok: bool) (json: "'a body")

text \<open>What \<open>await fetch(url)\<close> does: it yields a response, throws, or never
  settles.\<close>

datatype 'a fetch = Resolves "'a response" | Rejects thrown | Pending

datatype event = Request string | Settle string

text \<open>
  The network answers a request from the trace up to and including that request, so the
  answer may depend on the URL and on everything that happened before. The bodies are
  typed as the component's annotations type them.
\<close>

record network =
  weather_api :: "event list \<Rightarrow> WeatherData fetch"
  forecast_api :: "event list \<Rightarrow> ForecastData fetch"

subsection \<open>The component's state\<close>

record app_state =
  city :: string
  weatherData :: "WeatherData option"
  forecastData :: "ForecastData option"
  loading :: bool
  error :: "string option"
  trace :: "event list"

text \<open>The state of \<open>useState\<close>'s initial values, before any request.\<close>

definition initial :: app_state where
  "initial = \<lparr>city = [], weatherData = None, forecastData = None, loading = False,
     error = None, trace = []\<rparr>"

text \<open>An asynchronous run either completes, or stays suspended at an \<open>await\<close> that
  never settles; both carry the state reached.\<close>

datatype run = Done (state_of: app_state) | Suspended (state_of: app_state)

definition request :: "string \<Rightarrow> app_state \<Rightarrow> app_state" where
  "request url s = s\<lparr>trace := trace s @ [Request url]\<rparr>"

definition settle :: "string \<Rightarrow> app_state \<Rightarrow> app_state" where
  "settle url s = s\<lparr>trace := trace s @ [Settle url]\<rparr>"

subsection \<open>\<open>fetchWeatherData\<close>\<close>

definition currentWeatherUrl :: "string \<Rightarrow> string \<Rightarrow> string" where
  "currentWeatherUrl apiKey cityName =
     ''https://api.weatherapi.com/v1/current.json?key='' @ apiKey @ ''&q='' @ cityName"

definition forecastUrl :: "string \<Rightarrow> string \<Rightarrow> string" where
  "forecastUrl apiKey cityName =
     ''https://api.weatherapi.com/v1/forecast.json?key='' @ apiKey @ ''&q='' @ cityName
       @ ''&days=3''"

text \<open>The \<open>catch\<close> clause and the \<open>finally\<close> clause, shared by
  \<open>fetchWeatherData\<close> and the geolocation handler.\<close>

definition catch_clause :: "thrown \<Rightarrow> app_state \<Rightarrow> app_state" where
  "catch_clause e s =
     (let s1 = (case e of ErrorObj message \<Rightarrow> s\<lparr>error := Some message\<rparr> | NonError \<Rightarrow> s)
      in s1\<lparr>weatherData := None, forecastData := None\<rparr>)"

definition finally_clause :: "app_state \<Rightarrow> app_state" where
  "finally_clause s = s\<lparr>loading := False\<rparr>"

definition throw :: "thrown \<Rightarrow> app_state \<Rightarrow> run" where
  "throw e s = Done (finally_clause (catch_clause e s))"

text \<open>The synchronous part, up to the first \<open>await\<close>: the two setters and the
  current-weather request.\<close>

definition fetchWeatherData_begin :: "string \<Rightarrow> string \<Rightarrow> app_state \<Rightarrow> app_state" where
  "fetchWeatherData_begin apiKey cityName s =
     request (currentWeatherUrl apiKey cityName) (s\<lparr>loading := True, error := None\<rparr>)"

text \<open>From the forecast request on.\<close>

definition fetchWeatherData_forecast :: "network \<Rightarrow> string \<Rightarrow> string \<Rightarrow> app_state \<Rightarrow> run" where
  "fetchWeatherData_forecast net apiKey cityName s =
     (let url = forecastUrl apiKey cityName; s1 = request url s
      in case forecast_api net (trace s1) of
           Pending \<Rightarrow> Suspended s1
         | Rejects e \<Rightarrow> throw e (settle url s1)
         | Resolves forecastResponse \<Rightarrow>
             (let s2 = settle url s1
              in if \<not> ok forecastResponse
                 then throw (ErrorObj ''Unable to fetch forecast data.'') s2
                 else (case json forecastResponse of
                         ParsePending \<Rightarrow> Suspended s2
                       | ParseThrows e \<Rightarrow> throw e s2
                       | Parsed fd \<Rightarrow> Done (finally_clause (s2\<lparr>forecastData := Some fd\<rparr>)))))"

text \<open>The continuation of the first \<open>await\<close>.\<close>

definition fetchWeatherData_resume :: "network \<Rightarrow> string \<Rightarrow> string \<Rightarrow> app_state \<Rightarrow> run" where
  "fetchWeatherData_resume net apiKey cityName s =
     (let url = currentWeatherUrl apiKey cityName
      in case weather_api net (trace s) of
           Pending \<Rightarrow> Suspended s
         | Rejects e \<Rightarrow> throw e (settle url s)
         | Resolves weatherResponse \<Rightarrow>
             (let s1 = settle url s
              in if \<not> ok weatherResponse
                 then throw (ErrorObj ''City not found! Please Try Again.'') s1
                 else (case json weatherResponse of
                         ParsePending \<Rightarrow> Suspended s1
                       | ParseThrows e \<Rightarrow> throw e s1
                       | Parsed wd \<Rightarrow>
                           fetchWeatherData_forecast net apiKey cityName
                             (s1\<lparr>weatherData := Some wd\<rparr>))))"

definition fetchWeatherData :: "network \<Rightarrow> string \<Rightarrow> string \<Rightarrow> app_state \<Rightarrow> run" where
  "fetchWeatherData net apiKey cityName s =
     fetchWeatherData_resume net apiKey cityName (fetchWeatherData_begin apiKey cityName s)"

subsection \<open>\<open>handleSubmit\<close>\<close>

text \<open>
  The handler itself is synchronous: it returns the state it leaves and, when it has
  called \<open>fetchWeatherData\<close> (which it does not await), the argument of that call,
  whose continuation is still to run.
\<close>

definition handleSubmit :: "string \<Rightarrow> app_state \<Rightarrow> app_state \<times> string option" where
  "handleSubmit apiKey s =
     (if trim (city s) = []
      then (s\<lparr>error := Some ''Please enter a city.'', weatherData := None,
               forecastData := None\<rparr>, None)
      else ((fetchWeatherData_begin apiKey (city s) (s\<lparr>error := None\<rparr>))\<lparr>city := []\<rparr>,
            Some (city s)))"

text \<open>The submission with the continuation of its fetch run to the end.\<close>

definition submit :: "network \<Rightarrow> string \<Rightarrow> app_state \<Rightarrow> run" where
  "submit net apiKey s =
     (case handleSubmit apiKey s of
        (s', None) \<Rightarrow> Done s'
      | (s', Some cityName) \<Rightarrow> fetchWeatherData_resume net apiKey cityName s')"

subsection \<open>The geolocation effect\<close>

record coords =
  latitude :: number
  longitude :: number

text \<open>What the browser does with \<open>getCurrentPosition\<close>: there is no
  \<open>navigator.geolocation\<close>, the error callback is called, the success callback is
  called, or no callback is ever called.\<close>

datatype geolocation = Unsupported | PositionError | Position coords | NoCallback

text \<open>\<open>toString\<close> is the number-to-string conversion of the template literal.\<close>

definition reverseGeocodeUrl :: "(number \<Rightarrow> string) \<Rightarrow> string \<Rightarrow> coords \<Rightarrow> string" where
  "reverseGeocodeUrl toString apiKey position =
     ''https://api.weatherapi.com/v1/current.json?key='' @ apiKey @ ''&q=''
       @ toString (latitude position) @ '','' @ toString (longitude position)"

text \<open>The success callback.\<close>

definition onPosition ::
  "network \<Rightarrow> (number \<Rightarrow> string) \<Rightarrow> string \<Rightarrow> coords \<Rightarrow> app_state \<Rightarrow> run" where
  "onPosition net toString apiKey position s =
     (let url = reverseGeocodeUrl toString apiKey position;
          s1 = request url (s\<lparr>loading := True\<rparr>)
      in case weather_api net (trace s1) of
           Pending \<Rightarrow> Suspended s1
         | Rejects e \<Rightarrow> throw e (settle url s1)
         | Resolves response \<Rightarrow>
             (let s2 = settle url s1
              in if \<not> ok response
                 then throw (ErrorObj ''Unable to fetch location data.'') s2
                 else (case json response of
                         ParsePending \<Rightarrow> Suspended s2
                       | ParseThrows e \<Rightarrow> throw e s2
                       | Parsed data \<Rightarrow>
                           (case fetchWeatherData net apiKey (name (location data))
                                   (s2\<lparr>weatherData := Some data,
                                        city := name (location data)\<rparr>) of
                              Suspended s3 \<Rightarrow> Suspended s3
                            | Done s3 \<Rightarrow> Done (finally_clause s3)))))"

definition getUserLocation ::
  "network \<Rightarrow> (number \<Rightarrow> string) \<Rightarrow> string \<Rightarrow> geolocation \<Rightarrow> app_state \<Rightarrow> run" where
  "getUserLocation net toString apiKey geo s =
     (case geo of
        Position position \<Rightarrow> onPosition net toString apiKey position s
      | PositionError \<Rightarrow>
          Done (s\<lparr>error := Some ''Unable to retrieve your location.'', weatherData := None,
                  forecastData := None\<rparr>)
      | NoCallback \<Rightarrow> Done s
      | Unsupported \<Rightarrow>
          Done (s\<lparr>error := Some ''Geolocation is not supported by this browser.'',
                  weatherData := None, forecastData := None\<rparr>))"

subsection \<open>Rendering\<close>

text \<open>The part of the JSX that depends on the state. A string or \<open>null\<close> is truthy
  when it is a non-empty string.\<close>

definition truthy :: "string option \<Rightarrow> bool" where
  "truthy e = (case e of None \<Rightarrow> False | Some m \<Rightarrow> m \<noteq> [])"

record day_view =
  key :: string
  day_src :: string
  day_alt :: string
  day_temp :: number

record weather_view =
  src :: string
  alt :: string
  temp_text :: number
  city_text :: string
  w_data :: number
  h_data :: number
  forecast_data :: "day_view list option"

record view =
  loader :: bool
  error_text :: "string option"
  weather :: "weather_view option"

definition render_day :: "forecastday \<Rightarrow> day_view" where
  "render_day d =
     \<lparr>key = date d, day_src = icon (day_condition (day d)),
      day_alt = text' (day_condition (day d)),
      day_temp = Math_round (avgtemp_c (day d))\<rparr>"

definition render_forecast :: "ForecastData \<Rightarrow> day_view list" where
  "render_forecast fd = map render_day (slice 0 3 (forecastday (forecast fd)))"

definition render_weather :: "WeatherData \<Rightarrow> ForecastData option \<Rightarrow> weather_view" where
  "render_weather wd fdo =
     \<lparr>src = icon (condition (current wd)), alt = text' (condition (current wd)),
      temp_text = Math_round (temp_c (current wd)),
      city_text = name (location wd),
      w_data = Math_round (wind_kph (current wd)),
      h_data = Math_round (humidity (current wd)),
      forecast_data = map_option render_forecast fdo\<rparr>"

definition render :: "app_state \<Rightarrow> view" where
  "render s =
     \<lparr>loader = loading s,
      error_text = (if truthy (error s) then error s else None),
      weather = (if \<not> truthy (error s)
                 then map_option (\<lambda>wd. render_weather wd (forecastData s)) (weatherData s)
                 else None)\<rparr>"

subsection \<open>Example data\<close>

text \<open>A current-weather body, a forecast body of four days, and the network that gives
  the same two answers to every request; the theorems below are run on them.\<close>

definition oslo :: WeatherData where
  "oslo = \<lparr>location = \<lparr>name = ''Oslo'', country = ''Norway''\<rparr>,
     current = \<lparr>temp_c = Finite (25 / 2), humidity = Finite 64, wind_kph = Finite (73 / 10),
       condition = \<lparr>text' = ''Sunny'', icon = ''113.png''\<rparr>\<rparr>\<rparr>"

definition oslo_days :: "forecastday list" where
  "oslo_days =
     [\<lparr>date = ''2024-05-01'',
       day = \<lparr>avgtemp_c = Finite (21 / 2),
              day_condition = \<lparr>text' = ''Sunny'', icon = ''113.png''\<rparr>\<rparr>\<rparr>,
      \<lparr>date = ''2024-05-02'',
       day = \<lparr>avgtemp_c = Finite (- 5 / 2),
              day_condition = \<lparr>text' = ''Snow'', icon = ''338.png''\<rparr>\<rparr>\<rparr>,
      \<lparr>date = ''2024-05-03'',
       day = \<lparr>avgtemp_c = Finite 7,
              day_condition = \<lparr>text' = ''Rain'', icon = ''308.png''\<rparr>\<rparr>\<rparr>,
      \<lparr>date = ''2024-05-04'',
       day = \<lparr>avgtemp_c = Finite (99 / 10),
              day_condition = \<lparr>text' = ''Mist'', icon = ''143.png''\<rparr>\<rparr>\<rparr>]"

definition oslo_forecast :: ForecastData where
  "oslo_forecast = \<lparr>forecast = \<lparr>forecastday = oslo_days\<rparr>\<rparr>"

definition replies :: "WeatherData fetch \<Rightarrow> ForecastData fetch \<Rightarrow> network" where
  "replies w f = \<lparr>weather_api = (\<lambda>_. w), forecast_api = (\<lambda>_. f)\<rparr>"

definition oslo_state :: app_state where
  "oslo_state = initial\<lparr>weatherData := Some oslo, forecastData := Some oslo_forecast\<rparr>"

section \<open>Properties\<close>

subsection \<open>Auxiliary facts\<close>

lemmas run_defs = fetchWeatherData_def fetchWeatherData_begin_def fetchWeatherData_resume_def
  fetchWeatherData_forecast_def throw_def catch_clause_def finally_clause_def request_def
  settle_def Let_def

lemmas example_defs = oslo_def oslo_days_def oslo_forecast_def replies_def oslo_state_def
  initial_def

lemma urls_differ: "currentWeatherUrl k c \<noteq> forecastUrl k' c'"
  by (simp add: currentWeatherUrl_def forecastUrl_def)

lemma trim_empty_iff: "trim s = [] \<longleftrightarrow> (\<forall>c \<in> set s. isWhiteSpace c)"
proof
  assume "trim s = []"
  then have "\<forall>x \<in> set (dropWhile isWhiteSpace s). isWhiteSpace x"
    by (simp add: trim_def)
  then have "dropWhile isWhiteSpace s = []"
    using hd_dropWhile [of isWhiteSpace s] hd_in_set [of "dropWhile isWhiteSpace s"] by blast
  then show "\<forall>c \<in> set s. isWhiteSpace c"
    by simp
next
  assume "\<forall>c \<in> set s. isWhiteSpace c"
  then have empty: "dropWhile isWhiteSpace s = []" by simp
  show "trim s = []" unfolding trim_def empty by simp
qed

lemma slice_0_3: "slice 0 3 xs = take 3 xs"
  by (simp add: slice_def Let_def min_def)

lemma render_forecast_take:
  "render_forecast fd = map render_day (take 3 (forecastday (forecast fd)))"
  by (simp add: render_forecast_def slice_0_3)

text \<open>On a finite value \<open>Math.round\<close> yields an integer at distance at most one half,
  and no integer is nearer.\<close>

lemma Math_round_nearest:
  "\<exists>n::int. Math_round (Finite x) = Finite (of_int n) \<and> \<bar>of_int n - x\<bar> \<le> 1 / 2
     \<and> (\<forall>m::int. \<bar>of_int n - x\<bar> \<le> \<bar>of_int m - x\<bar>)"
proof -
  let ?n = "\<lfloor>x + 1 / 2\<rfloor>"
  have lo: "of_int ?n \<le> x + 1 / 2" by (rule of_int_floor_le)
  have hi: "x + 1 / 2 < of_int ?n + 1" by linarith
  have near: "\<bar>of_int ?n - x\<bar> \<le> 1 / 2" using lo hi by linarith
  have best: "\<bar>of_int ?n - x\<bar> \<le> \<bar>of_int m - x\<bar>" for m :: int
  proof -
    consider "m = ?n" | "m \<le> ?n - 1" | "?n + 1 \<le> m" by linarith
    then show ?thesis
    proof cases
      case 1
      then show ?thesis by simp
    next
      case 2
      then have "(of_int m :: rat) \<le> of_int ?n - 1"
        by (metis of_int_1 of_int_diff of_int_le_iff)
      then show ?thesis using lo hi by linarith
    next
      case 3
      then have "(of_int ?n :: rat) + 1 \<le> of_int m"
        by (metis of_int_1 of_int_add of_int_le_iff)
      then show ?thesis using lo hi by linarith
    qed
  qed
  show ?thesis using near best by auto
qed

text \<open>The floor of a quotient of numerals, for evaluating \<open>Math_round\<close>.\<close>

lemma floor_numeral_quotient: "\<lfloor>numeral a / numeral b :: rat\<rfloor> = numeral a div numeral b"
  using floor_divide_of_int_eq [of "numeral a" "numeral b", where ?'a = rat] by simp

text \<open>The continuation of the fetch never writes \<open>city\<close>.\<close>

lemma resume_city: "city (state_of (fetchWeatherData_resume net apiKey cityName s)) = city s"
  by (simp add: run_defs split: fetch.splits body.splits thrown.splits)

subsection \<open>Submitting the form\<close>

text \<open>
  Claim C1. A submission whose city is empty or consists of white space only (its
  \<open>trim()\<close> is the empty string) sets the error to \<open>Please enter a city.\<close>, sets
  \<open>weatherData\<close> and \<open>forecastData\<close> to \<open>null\<close> and issues no request: the
  handler leaves no pending call, the trace is the one it found, and the whole submission
  is complete with that state whatever the network would answer. A submission with any
  other city clears the error and starts \<open>fetchWeatherData\<close> with that city: the
  state the handler leaves is the one the synchronous part of \<open>fetchWeatherData\<close>
  produces (with the input field cleared), the request for that city's current weather
  is the one event added to the trace, and the rest of the submission is the
  continuation of that call.
\<close>

theorem handleSubmit_validation:
  "(trim (city s) = []) = (\<forall>c \<in> set (city s). isWhiteSpace c)
   \<and> (trim (city s) = [] \<longrightarrow>
        handleSubmit apiKey s =
          (s\<lparr>error := Some ''Please enter a city.'', weatherData := None,
              forecastData := None\<rparr>, None)
        \<and> trace (fst (handleSubmit apiKey s)) = trace s
        \<and> submit net apiKey s =
            Done (s\<lparr>error := Some ''Please enter a city.'', weatherData := None,
                    forecastData := None\<rparr>))
   \<and> (trim (city s) \<noteq> [] \<longrightarrow>
        error (fst (handleSubmit apiKey s)) = None
        \<and> snd (handleSubmit apiKey s) = Some (city s)
        \<and> fst (handleSubmit apiKey s) = (fetchWeatherData_begin apiKey (city s) s)\<lparr>city := []\<rparr>
        \<and> trace (fst (handleSubmit apiKey s)) =
            trace s @ [Request (currentWeatherUrl apiKey (city s))]
        \<and> submit net apiKey s =
            fetchWeatherData_resume net apiKey (city s) (fst (handleSubmit apiKey s)))"
  by (simp add: trim_empty_iff handleSubmit_def submit_def fetchWeatherData_begin_def
      request_def)

theorem handleSubmit_validation_witness:
  "trim ''  '' = []
   \<and> handleSubmit ''k'' (oslo_state\<lparr>city := ''  ''\<rparr>) =
       (oslo_state\<lparr>city := ''  '', error := Some ''Please enter a city.'',
          weatherData := None, forecastData := None\<rparr>, None)
   \<and> submit (replies Pending Pending) ''k'' (oslo_state\<lparr>city := ''  ''\<rparr>) =
       Done (oslo_state\<lparr>city := ''  '', error := Some ''Please enter a city.'',
          weatherData := None, forecastData := None\<rparr>)
   \<and> trim ''Oslo'' \<noteq> []
   \<and> error (fst (handleSubmit ''k'' (oslo_state\<lparr>city := ''Oslo'', error := Some ''old''\<rparr>)))
       = None
   \<and> snd (handleSubmit ''k'' (oslo_state\<lparr>city := ''Oslo'', error := Some ''old''\<rparr>))
       = Some ''Oslo''
   \<and> trace (fst (handleSubmit ''k'' (oslo_state\<lparr>city := ''Oslo'', error := Some ''old''\<rparr>)))
       = [Request ''https://api.weatherapi.com/v1/current.json?key=k&q=Oslo'']"
proof -
  have blank: "trim (city (oslo_state\<lparr>city := ''  ''\<rparr>)) = []"
    by (simp add: trim_def isWhiteSpace_def)
  have filled: "trim (city (oslo_state\<lparr>city := ''Oslo'', error := Some ''old''\<rparr>)) \<noteq> []"
    by (simp add: trim_def isWhiteSpace_def)
  show ?thesis
    using blank filled
      handleSubmit_validation [where s = "oslo_state\<lparr>city := ''  ''\<rparr>" and apiKey = "''k''"
        and net = "replies Pending Pending"]
      handleSubmit_validation [where s = "oslo_state\<lparr>city := ''Oslo'', error := Some ''old''\<rparr>"
        and apiKey = "''k''" and net = "replies Pending Pending"]
    by (simp add: example_defs currentWeatherUrl_def fetchWeatherData_begin_def request_def)
qed

subsection \<open>\<open>fetchWeatherData\<close>: the results of a run\<close>

text \<open>
  Claim C2, amended. Take a run of \<open>fetchWeatherData\<close> that no other handler
  writes into while it awaits: its continuation starts in the state its synchronous part
  left. When the current-weather request and the forecast request both resolve with an
  \<open>ok\<close> response whose body parses, the run completes, and the state it leaves holds
  the parsed current-weather body in \<open>weatherData\<close>, the parsed forecast body in
  \<open>forecastData\<close> and \<open>null\<close> in \<open>error\<close> (with \<open>loading\<close> false and the
  four network events in the trace); that state renders the current conditions together
  with the forecast, and no error text. This holds for every city name, so for every
  non-blank one that a submission passes on.
\<close>

theorem fetchWeatherData_success:
  assumes "weather_api net (trace s @ [Request (currentWeatherUrl apiKey cityName)]) = Resolves r1"
    and "ok r1" and "json r1 = Parsed wd"
    and "forecast_api net (trace s @ [Request (currentWeatherUrl apiKey cityName),
            Settle (currentWeatherUrl apiKey cityName), Request (forecastUrl apiKey cityName)])
          = Resolves r2"
    and "ok r2" and "json r2 = Parsed fd"
  shows "fetchWeatherData net apiKey cityName s =
           Done (s\<lparr>weatherData := Some wd, forecastData := Some fd, loading := False,
                   error := None,
                   trace := trace s @ [Request (currentWeatherUrl apiKey cityName),
                     Settle (currentWeatherUrl apiKey cityName),
                     Request (forecastUrl apiKey cityName),
                     Settle (forecastUrl apiKey cityName)]\<rparr>)
         \<and> render (state_of (fetchWeatherData net apiKey cityName s)) =
             \<lparr>loader = False, error_text = None,
              weather = Some (render_weather wd (Some fd))\<rparr>
         \<and> (city s = cityName \<and> trim cityName \<noteq> [] \<longrightarrow>
              submit net apiKey s =
                Done (s\<lparr>city := [], weatherData := Some wd, forecastData := Some fd,
                   loading := False, error := None,
                   trace := trace s @ [Request (currentWeatherUrl apiKey cityName),
                     Settle (currentWeatherUrl apiKey cityName),
                     Request (forecastUrl apiKey cityName),
                     Settle (forecastUrl apiKey cityName)]\<rparr>))"
  using assms by (simp add: run_defs render_def truthy_def submit_def handleSubmit_def)

theorem fetchWeatherData_success_witness:
  "fetchWeatherData
     (replies (Resolves (Response True (Parsed oslo)))
        (Resolves (Response True (Parsed oslo_forecast))))
     ''k'' ''Oslo'' (initial\<lparr>error := Some ''old''\<rparr>) =
   Done (initial\<lparr>weatherData := Some oslo, forecastData := Some oslo_forecast,
     trace := [Request ''https://api.weatherapi.com/v1/current.json?key=k&q=Oslo'',
       Settle ''https://api.weatherapi.com/v1/current.json?key=k&q=Oslo'',
       Request ''https://api.weatherapi.com/v1/forecast.json?key=k&q=Oslo&days=3'',
       Settle ''https://api.weatherapi.com/v1/forecast.json?key=k&q=Oslo&days=3'']\<rparr>)"
proof -
  let ?net = "replies (Resolves (Response True (Parsed oslo)))
        (Resolves (Response True (Parsed oslo_forecast)))"
  let ?s = "initial\<lparr>error := Some ''old''\<rparr>"
  have w: "weather_api ?net (trace ?s @ [Request (currentWeatherUrl ''k'' ''Oslo'')])
      = Resolves (Response True (Parsed oslo))"
    by (simp add: replies_def)
  have f: "forecast_api ?net (trace ?s @ [Request (currentWeatherUrl ''k'' ''Oslo''),
      Settle (currentWeatherUrl ''k'' ''Oslo''), Request (forecastUrl ''k'' ''Oslo'')])
      = Resolves (Response True (Parsed oslo_forecast))"
    by (simp add: replies_def)
  have o1: "ok (Response True (Parsed oslo))" and o2: "ok (Response True (Parsed oslo_forecast))"
    by simp_all
  have j1: "json (Response True (Parsed oslo)) = Parsed oslo"
    and j2: "json (Response True (Parsed oslo_forecast)) = Parsed oslo_forecast"
    by simp_all
  show ?thesis
    using fetchWeatherData_success [OF w o1 j1 f o2 j2]
    by (simp add: initial_def currentWeatherUrl_def forecastUrl_def)
qed

text \<open>
  The run of Claim C2 is one that no other handler writes into. The component has no
  cancellation and no guard against a handler running while a fetch is awaited, and
  \<open>fetchWeatherData\<close> clears \<open>error\<close> only before its first \<open>await\<close>. So when
  \<open>Oslo\<close> is submitted and the form is submitted again on the field the first
  submission emptied, the second submission sets \<open>Please enter a city.\<close> and issues no
  request, and the continuation of the first, with both responses \<open>ok\<close> and parsed,
  stores both bodies and completes with that error still set: the page shows the error
  and no weather.
\<close>

theorem fetchWeatherData_success_counterexample:
  "snd (handleSubmit ''k'' (initial\<lparr>city := ''Oslo''\<rparr>)) = Some ''Oslo''
   \<and> snd (handleSubmit ''k'' (fst (handleSubmit ''k'' (initial\<lparr>city := ''Oslo''\<rparr>)))) = None
   \<and> fetchWeatherData_resume
        (replies (Resolves (Response True (Parsed oslo)))
           (Resolves (Response True (Parsed oslo_forecast))))
        ''k'' ''Oslo''
        (fst (handleSubmit ''k'' (fst (handleSubmit ''k'' (initial\<lparr>city := ''Oslo''\<rparr>))))) =
      Done (initial\<lparr>weatherData := Some oslo, forecastData := Some oslo_forecast,
        error := Some ''Please enter a city.'',
        trace := [Request ''https://api.weatherapi.com/v1/current.json?key=k&q=Oslo'',
          Settle ''https://api.weatherapi.com/v1/current.json?key=k&q=Oslo'',
          Request ''https://api.weatherapi.com/v1/forecast.json?key=k&q=Oslo&days=3'',
          Settle ''https://api.weatherapi.com/v1/forecast.json?key=k&q=Oslo&days=3'']\<rparr>)
   \<and> render (state_of (fetchWeatherData_resume
        (replies (Resolves (Response True (Parsed oslo)))
           (Resolves (Response True (Parsed oslo_forecast))))
        ''k'' ''Oslo''
        (fst (handleSubmit ''k'' (fst (handleSubmit ''k'' (initial\<lparr>city := ''Oslo''\<rparr>))))))) =
      \<lparr>loader = False, error_text = Some ''Please enter a city.'', weather = None\<rparr>"
proof -
  have filled: "trim ''Oslo'' \<noteq> []" and blank: "trim [] = []"
    by (simp_all add: trim_def isWhiteSpace_def)
  have first: "handleSubmit ''k'' (initial\<lparr>city := ''Oslo''\<rparr>) =
      (initial\<lparr>loading := True,
         trace := [Request ''https://api.weatherapi.com/v1/current.json?key=k&q=Oslo'']\<rparr>,
       Some ''Oslo'')"
    using filled
    by (simp add: handleSubmit_def fetchWeatherData_begin_def request_def initial_def
        currentWeatherUrl_def)
  have second: "handleSubmit ''k'' (initial\<lparr>loading := True,
         trace := [Request ''https://api.weatherapi.com/v1/current.json?key=k&q=Oslo'']\<rparr>) =
      (initial\<lparr>loading := True, error := Some ''Please enter a city.'',
         trace := [Request ''https://api.weatherapi.com/v1/current.json?key=k&q=Oslo'']\<rparr>,
       None)"
    using blank by (simp add: handleSubmit_def initial_def)
  have rest: "fetchWeatherData_resume
        (replies (Resolves (Response True (Parsed oslo)))
           (Resolves (Response True (Parsed oslo_forecast))))
        ''k'' ''Oslo''
        (initial\<lparr>loading := True, error := Some ''Please enter a city.'',
           trace := [Request ''https://api.weatherapi.com/v1/current.json?key=k&q=Oslo'']\<rparr>) =
      Done (initial\<lparr>weatherData := Some oslo, forecastData := Some oslo_forecast,
        error := Some ''Please enter a city.'',
        trace := [Request ''https://api.weatherapi.com/v1/current.json?key=k&q=Oslo'',
          Settle ''https://api.weatherapi.com/v1/current.json?key=k&q=Oslo'',
          Request ''https://api.weatherapi.com/v1/forecast.json?key=k&q=Oslo&days=3'',
          Settle ''https://api.weatherapi.com/v1/forecast.json?key=k&q=Oslo&days=3'']\<rparr>)"
    by (simp add: run_defs replies_def initial_def currentWeatherUrl_def forecastUrl_def)
  show ?thesis
    unfolding first second fst_conv snd_conv rest
    by (simp add: render_def truthy_def initial_def)
qed

text \<open>
  Claim C3. A current-weather response that is not \<open>ok\<close> ends the run with the error
  \<open>City not found! Please Try Again.\<close>, and a forecast response that is not \<open>ok\<close>
  ends it with \<open>Unable to fetch forecast data.\<close> In both cases the run completes, and
  the state it leaves differs from the one it started in only by that error string, the
  two data fields set to \<open>null\<close>, \<open>loading\<close> set to false and the requests made so
  far in the trace: nothing is retried and no other field is written. The page then shows
  that one string and no weather.
\<close>

theorem fetchWeatherData_failure:
  "(weather_api net (trace s @ [Request (currentWeatherUrl apiKey cityName)]) = Resolves r1
      \<and> \<not> ok r1 \<longrightarrow>
    fetchWeatherData net apiKey cityName s =
      Done (s\<lparr>weatherData := None, forecastData := None, loading := False,
              error := Some ''City not found! Please Try Again.'',
              trace := trace s @ [Request (currentWeatherUrl apiKey cityName),
                Settle (currentWeatherUrl apiKey cityName)]\<rparr>)
    \<and> render (state_of (fetchWeatherData net apiKey cityName s)) =
        \<lparr>loader = False, error_text = Some ''City not found! Please Try Again.'',
         weather = None\<rparr>)
   \<and> (weather_api net (trace s @ [Request (currentWeatherUrl apiKey cityName)]) = Resolves r1
      \<and> ok r1 \<and> json r1 = Parsed wd
      \<and> forecast_api net (trace s @ [Request (currentWeatherUrl apiKey cityName),
            Settle (currentWeatherUrl apiKey cityName), Request (forecastUrl apiKey cityName)])
          = Resolves r2
      \<and> \<not> ok r2 \<longrightarrow>
    fetchWeatherData net apiKey cityName s =
      Done (s\<lparr>weatherData := None, forecastData := None, loading := False,
              error := Some ''Unable to fetch forecast data.'',
              trace := trace s @ [Request (currentWeatherUrl apiKey cityName),
                Settle (currentWeatherUrl apiKey cityName),
                Request (forecastUrl apiKey cityName),
                Settle (forecastUrl apiKey cityName)]\<rparr>)
    \<and> render (state_of (fetchWeatherData net apiKey cityName s)) =
        \<lparr>loader = False, error_text = Some ''Unable to fetch forecast data.'',
         weather = None\<rparr>)"
  by (simp add: run_defs render_def truthy_def)

theorem fetchWeatherData_failure_witness:
  "fetchWeatherData (replies (Resolves (Response False ParsePending)) Pending)
     ''k'' ''Atlantis'' oslo_state =
   Done (initial\<lparr>error := Some ''City not found! Please Try Again.'',
     trace := [Request ''https://api.weatherapi.com/v1/current.json?key=k&q=Atlantis'',
       Settle ''https://api.weatherapi.com/v1/current.json?key=k&q=Atlantis'']\<rparr>)
   \<and> fetchWeatherData
       (replies (Resolves (Response True (Parsed oslo)))
          (Resolves (Response False ParsePending)))
       ''k'' ''Oslo'' oslo_state =
     Done (initial\<lparr>error := Some ''Unable to fetch forecast data.'',
       trace := [Request ''https://api.weatherapi.com/v1/current.json?key=k&q=Oslo'',
         Settle ''https://api.weatherapi.com/v1/current.json?key=k&q=Oslo'',
         Request ''https://api.weatherapi.com/v1/forecast.json?key=k&q=Oslo&days=3'',
         Settle ''https://api.weatherapi.com/v1/forecast.json?key=k&q=Oslo&days=3'']\<rparr>)"
  using
    fetchWeatherData_failure [where net = "replies (Resolves (Response False ParsePending)) Pending"
      and s = oslo_state and apiKey = "''k''" and cityName = "''Atlantis''"
      and ?r1.0 = "Response False ParsePending"]
    fetchWeatherData_failure [where net = "replies (Resolves (Response True (Parsed oslo)))
          (Resolves (Response False ParsePending))"
      and s = oslo_state and apiKey = "''k''" and cityName = "''Oslo''"
      and ?r1.0 = "Response True (Parsed oslo)" and wd = oslo
      and ?r2.0 = "Response False ParsePending"]
  by (simp add: example_defs currentWeatherUrl_def forecastUrl_def)

subsection \<open>Rendering\<close>

text \<open>
  Claim C4. Whatever the number of entries of \<open>forecastday\<close> in the forecast held in
  \<open>forecastData\<close>, the forecast the page renders consists of the first
  \<open>min(3, length)\<close> entries, in the order of the array: entry \<open>i\<close> of the rendered
  list is the rendering of entry \<open>i\<close> of the array. The forecast is part of the weather
  panel, which is rendered when there is no error text and \<open>weatherData\<close> is present,
  and then shows exactly that list; in every state at most three forecast days are on
  the page. The forecast request ends in \<open>&days=3\<close>.
\<close>

theorem forecast_three_days:
  "length (render_forecast fd) = min 3 (length (forecastday (forecast fd)))
   \<and> (\<forall>i < length (render_forecast fd).
         render_forecast fd ! i = render_day (forecastday (forecast fd) ! i))
   \<and> (\<forall>v. forecastData s = Some fd \<and> weather (render s) = Some v \<longrightarrow>
         forecast_data v = Some (render_forecast fd))
   \<and> (forecastData s = Some fd \<and> \<not> truthy (error s) \<and> weatherData s \<noteq> None \<longrightarrow>
         (\<exists>v. weather (render s) = Some v))
   \<and> (\<forall>v ds. weather (render s) = Some v \<and> forecast_data v = Some ds \<longrightarrow> length ds \<le> 3)
   \<and> (\<exists>p. forecastUrl apiKey cityName = p @ ''&days=3'')"
proof -
  have a: "length (render_forecast fd) = min 3 (length (forecastday (forecast fd)))"
    by (simp add: render_forecast_take min.commute)
  have b: "\<forall>i < length (render_forecast fd).
         render_forecast fd ! i = render_day (forecastday (forecast fd) ! i)"
    by (simp add: render_forecast_take)
  have c: "\<forall>v. forecastData s = Some fd \<and> weather (render s) = Some v \<longrightarrow>
         forecast_data v = Some (render_forecast fd)"
    by (auto simp add: render_def render_weather_def split: if_splits)
  have d: "forecastData s = Some fd \<and> \<not> truthy (error s) \<and> weatherData s \<noteq> None \<longrightarrow>
         (\<exists>v. weather (render s) = Some v)"
    by (auto simp add: render_def)
  have e: "\<forall>v ds. weather (render s) = Some v \<and> forecast_data v = Some ds \<longrightarrow> length ds \<le> 3"
    by (auto simp add: render_def render_weather_def render_forecast_take split: if_splits)
  have f: "\<exists>p. forecastUrl apiKey cityName = p @ ''&days=3''"
    unfolding forecastUrl_def by (metis append.assoc)
  show ?thesis using a b c d e f by blast
qed

theorem forecast_three_days_witness:
  "length (forecastday (forecast oslo_forecast)) = 4
   \<and> length (render_forecast oslo_forecast) = 3
   \<and> render_forecast oslo_forecast ! 2 = render_day (oslo_days ! 2)
   \<and> (\<exists>v. weather (render oslo_state) = Some v
         \<and> forecast_data v = Some (render_forecast oslo_forecast))"
proof -
  note t = forecast_three_days [where fd = oslo_forecast and s = oslo_state]
  have n: "length (forecastday (forecast oslo_forecast)) = 4"
    by (simp add: example_defs)
  have held: "forecastData oslo_state = Some oslo_forecast"
    by (simp add: example_defs)
  have shown: "\<not> truthy (error oslo_state) \<and> weatherData oslo_state \<noteq> None"
    by (simp add: example_defs truthy_def)
  from t n have len: "length (render_forecast oslo_forecast) = 3"
    by simp
  from t len have third: "render_forecast oslo_forecast ! 2 = render_day (oslo_days ! 2)"
    by (simp add: oslo_forecast_def)
  from t held shown obtain v where v: "weather (render oslo_state) = Some v"
    by blast
  from t held v have "forecast_data v = Some (render_forecast oslo_forecast)"
    by blast
  with v n len third show ?thesis by blast
qed

text \<open>
  Claim C5. Every number on the page is \<open>Math.round\<close> of the field it stands for: the
  temperature of \<open>temp_c\<close>, the wind speed of \<open>wind_kph\<close>, the humidity of
  \<open>humidity\<close>, and the temperature of the \<open>i\<close>-th forecast day shown of the
  \<open>avgtemp_c\<close> of the \<open>i\<close>-th entry of \<open>forecastday\<close>. On a finite value
  \<open>Math.round\<close> is the rounding to the nearest integer: the result is an integer at
  most one half away, and no integer is nearer.
\<close>

theorem display_rounds:
  "(weather (render s) = Some v \<longrightarrow>
      (\<exists>wd. weatherData s = Some wd
         \<and> temp_text v = Math_round (temp_c (current wd))
         \<and> w_data v = Math_round (wind_kph (current wd))
         \<and> h_data v = Math_round (humidity (current wd))
         \<and> (\<forall>ds. forecast_data v = Some ds \<longrightarrow>
              (\<exists>fd. forecastData s = Some fd
                 \<and> (\<forall>i < length ds.
                      day_temp (ds ! i)
                        = Math_round (avgtemp_c (day (forecastday (forecast fd) ! i))))))))
   \<and> (\<exists>n::int. Math_round (Finite x) = Finite (of_int n) \<and> \<bar>of_int n - x\<bar> \<le> 1 / 2
         \<and> (\<forall>m::int. \<bar>of_int n - x\<bar> \<le> \<bar>of_int m - x\<bar>))"
proof -
  have shown: "weather (render s) = Some v \<longrightarrow>
      (\<exists>wd. weatherData s = Some wd
         \<and> temp_text v = Math_round (temp_c (current wd))
         \<and> w_data v = Math_round (wind_kph (current wd))
         \<and> h_data v = Math_round (humidity (current wd))
         \<and> (\<forall>ds. forecast_data v = Some ds \<longrightarrow>
              (\<exists>fd. forecastData s = Some fd
                 \<and> (\<forall>i < length ds.
                      day_temp (ds ! i)
                        = Math_round (avgtemp_c (day (forecastday (forecast fd) ! i)))))))"
    by (auto simp add: render_def render_weather_def render_forecast_take render_day_def
        split: if_splits)
  show ?thesis using shown Math_round_nearest [of x] by blast
qed

theorem display_rounds_witness:
  "weather (render oslo_state) = Some (render_weather oslo (Some oslo_forecast))
   \<and> temp_text (render_weather oslo (Some oslo_forecast)) = Finite 13
   \<and> w_data (render_weather oslo (Some oslo_forecast)) = Finite 7
   \<and> h_data (render_weather oslo (Some oslo_forecast)) = Finite 64
   \<and> (\<exists>ds. forecast_data (render_weather oslo (Some oslo_forecast)) = Some ds
         \<and> day_temp (ds ! 0) = Finite 11 \<and> day_temp (ds ! 1) = Finite (- 2)
         \<and> day_temp (ds ! 2) = Finite 7)"
proof -
  let ?v = "render_weather oslo (Some oslo_forecast)"
  let ?ds = "render_forecast oslo_forecast"
  note t = display_rounds [where s = oslo_state and v = ?v and x = 0]
  have v: "weather (render oslo_state) = Some ?v"
    by (simp add: render_def truthy_def oslo_state_def initial_def)
  have wd: "weatherData oslo_state = Some oslo" and fd: "forecastData oslo_state = Some oslo_forecast"
    by (simp_all add: oslo_state_def initial_def)
  have ds: "forecast_data ?v = Some ?ds" and len: "length ?ds = 3"
    by (simp_all add: render_weather_def render_forecast_take example_defs)
  from t v wd have now: "temp_text ?v = Math_round (temp_c (current oslo))
      \<and> w_data ?v = Math_round (wind_kph (current oslo))
      \<and> h_data ?v = Math_round (humidity (current oslo))"
    by auto
  from t v wd fd ds have days: "\<forall>i < length ?ds.
      day_temp (?ds ! i) = Math_round (avgtemp_c (day (forecastday (forecast oslo_forecast) ! i)))"
    by auto
  have each: "day_temp (?ds ! i) = Math_round (avgtemp_c (day (oslo_days ! i)))" if "i < 3" for i
    using days len that by (simp add: oslo_forecast_def)
  have "day_temp (?ds ! 0) = Finite 11 \<and> day_temp (?ds ! 1) = Finite (- 2)
      \<and> day_temp (?ds ! 2) = Finite 7"
    using each [of 0] each [of 1] each [of 2]
    by (simp add: oslo_days_def floor_numeral_quotient)
  moreover have "temp_text ?v = Finite 13 \<and> w_data ?v = Finite 7 \<and> h_data ?v = Finite 64"
    using now by (simp add: oslo_def floor_numeral_quotient)
  ultimately show ?thesis using v ds by blast
qed

subsection \<open>\<open>fetchWeatherData\<close>: order of the requests, loading flag, errors\<close>

text \<open>
  Claim C6. In every run of \<open>fetchWeatherData\<close>, completed or suspended, the events
  added to the trace are an initial part of: request for the current weather, its
  settlement, request for the forecast, its settlement. So the forecast request comes
  after the settlement of the current-weather request, it is issued only when that
  request resolved with an \<open>ok\<close> response, and when that response is not \<open>ok\<close> the
  run ends with the first request and its settlement as its only events.
\<close>

theorem forecast_after_weather:
  "\<exists>evs. trace (state_of (fetchWeatherData net apiKey cityName s)) = trace s @ evs
     \<and> evs \<in> {[Request (currentWeatherUrl apiKey cityName)],
               [Request (currentWeatherUrl apiKey cityName),
                Settle (currentWeatherUrl apiKey cityName)],
               [Request (currentWeatherUrl apiKey cityName),
                Settle (currentWeatherUrl apiKey cityName),
                Request (forecastUrl apiKey cityName)],
               [Request (currentWeatherUrl apiKey cityName),
                Settle (currentWeatherUrl apiKey cityName),
                Request (forecastUrl apiKey cityName),
                Settle (forecastUrl apiKey cityName)]}
     \<and> (Request (forecastUrl apiKey cityName) \<in> set evs \<longrightarrow>
          (\<exists>r. weather_api net (trace s @ [Request (currentWeatherUrl apiKey cityName)])
                 = Resolves r \<and> ok r))
     \<and> ((\<exists>r. weather_api net (trace s @ [Request (currentWeatherUrl apiKey cityName)])
                 = Resolves r \<and> \<not> ok r) \<longrightarrow>
          evs = [Request (currentWeatherUrl apiKey cityName),
                 Settle (currentWeatherUrl apiKey cityName)])"
  using urls_differ [of apiKey cityName apiKey cityName]
  by (auto simp add: run_defs split: fetch.splits body.splits thrown.splits)

theorem forecast_after_weather_witness:
  "trace (state_of (fetchWeatherData (replies (Resolves (Response True (Parsed oslo))) Pending)
       ''k'' ''Oslo'' initial)) =
     [Request (currentWeatherUrl ''k'' ''Oslo''), Settle (currentWeatherUrl ''k'' ''Oslo''),
      Request (forecastUrl ''k'' ''Oslo'')]
   \<and> (\<exists>r. weather_api (replies (Resolves (Response True (Parsed oslo))) Pending)
             [Request (currentWeatherUrl ''k'' ''Oslo'')] = Resolves r \<and> ok r)
   \<and> trace (state_of (fetchWeatherData
       (replies (Resolves (Response False ParsePending))
          (Resolves (Response True (Parsed oslo_forecast))))
       ''k'' ''Oslo'' initial)) =
     [Request (currentWeatherUrl ''k'' ''Oslo''), Settle (currentWeatherUrl ''k'' ''Oslo'')]"
proof -
  let ?yes = "replies (Resolves (Response True (Parsed oslo))) Pending"
  let ?no = "replies (Resolves (Response False ParsePending))
          (Resolves (Response True (Parsed oslo_forecast)))"
  have run: "trace (state_of (fetchWeatherData ?yes ''k'' ''Oslo'' initial)) =
     [Request (currentWeatherUrl ''k'' ''Oslo''), Settle (currentWeatherUrl ''k'' ''Oslo''),
      Request (forecastUrl ''k'' ''Oslo'')]"
    by (simp add: run_defs replies_def initial_def)
  obtain evs where evs:
    "trace (state_of (fetchWeatherData ?yes ''k'' ''Oslo'' initial)) = trace initial @ evs"
    "Request (forecastUrl ''k'' ''Oslo'') \<in> set evs \<longrightarrow>
       (\<exists>r. weather_api ?yes (trace initial @ [Request (currentWeatherUrl ''k'' ''Oslo'')])
              = Resolves r \<and> ok r)"
    using forecast_after_weather [where net = ?yes and apiKey = "''k''" and cityName = "''Oslo''"
        and s = initial]
    by blast
  from evs(1) run have "Request (forecastUrl ''k'' ''Oslo'') \<in> set evs"
    by (simp add: initial_def)
  with evs(2) have first: "\<exists>r. weather_api ?yes [Request (currentWeatherUrl ''k'' ''Oslo'')]
      = Resolves r \<and> ok r"
    by (simp add: initial_def)
  have refused: "\<exists>r. weather_api ?no (trace initial @ [Request (currentWeatherUrl ''k'' ''Oslo'')])
      = Resolves r \<and> \<not> ok r"
    by (simp add: replies_def)
  have "trace (state_of (fetchWeatherData ?no ''k'' ''Oslo'' initial)) =
     [Request (currentWeatherUrl ''k'' ''Oslo''), Settle (currentWeatherUrl ''k'' ''Oslo'')]"
    using refused
      forecast_after_weather [where net = ?no and apiKey = "''k''" and cityName = "''Oslo''"
        and s = initial]
    by (auto simp add: initial_def)
  with run first show ?thesis by blast
qed

text \<open>
  Claim C7. Every run of \<open>fetchWeatherData\<close> that completes, on the success path or
  through the \<open>catch\<close> clause, leaves \<open>loading\<close> false. A run that is still
  suspended at an \<open>await\<close> has \<open>loading\<close> true. And a run completes whenever every
  request and every reading of a body settles.
\<close>

theorem loading_reset:
  "(fetchWeatherData net apiKey cityName s = Done t \<longrightarrow> \<not> loading t)
   \<and> (fetchWeatherData net apiKey cityName s = Suspended t \<longrightarrow> loading t)
   \<and> ((\<forall>tr. weather_api net tr \<noteq> Pending \<and> forecast_api net tr \<noteq> Pending
          \<and> (\<forall>r. weather_api net tr = Resolves r \<longrightarrow> json r \<noteq> ParsePending)
          \<and> (\<forall>r. forecast_api net tr = Resolves r \<longrightarrow> json r \<noteq> ParsePending))
        \<longrightarrow> (\<exists>u. fetchWeatherData net apiKey cityName s = Done u))"
  by (auto simp add: run_defs split: fetch.splits body.splits if_splits thrown.splits)

theorem loading_reset_witness:
  "(\<exists>u. fetchWeatherData
          (replies (Resolves (Response True (Parsed oslo))) (Rejects (ErrorObj ''Failed to fetch'')))
          ''k'' ''Oslo'' initial = Done u \<and> \<not> loading u)
   \<and> (\<exists>t. fetchWeatherData (replies (Resolves (Response True (Parsed oslo))) Pending)
          ''k'' ''Oslo'' initial = Suspended t \<and> loading t)"
proof -
  let ?settling = "replies (Resolves (Response True (Parsed oslo)))
      (Rejects (ErrorObj ''Failed to fetch''))"
  let ?hanging = "replies (Resolves (Response True (Parsed oslo))) Pending"
  have settles: "\<forall>tr. weather_api ?settling tr \<noteq> Pending \<and> forecast_api ?settling tr \<noteq> Pending
      \<and> (\<forall>r. weather_api ?settling tr = Resolves r \<longrightarrow> json r \<noteq> ParsePending)
      \<and> (\<forall>r. forecast_api ?settling tr = Resolves r \<longrightarrow> json r \<noteq> ParsePending)"
    by (auto simp add: replies_def)
  note complete = loading_reset [where net = ?settling and apiKey = "''k''"
      and cityName = "''Oslo''" and s = initial]
  from complete settles obtain u where u: "fetchWeatherData ?settling ''k'' ''Oslo'' initial = Done u"
    by blast
  have "\<not> loading u"
    using u loading_reset [where net = ?settling and apiKey = "''k''" and cityName = "''Oslo''"
      and s = initial and t = u]
    by blast
  with u have finished: "\<exists>u. fetchWeatherData ?settling ''k'' ''Oslo'' initial = Done u \<and> \<not> loading u"
    by blast
  have hangs: "fetchWeatherData ?hanging ''k'' ''Oslo'' initial
      = Suspended (state_of (fetchWeatherData ?hanging ''k'' ''Oslo'' initial))"
    by (simp add: run_defs replies_def)
  have "loading (state_of (fetchWeatherData ?hanging ''k'' ''Oslo'' initial))"
    using hangs loading_reset [where net = ?hanging and apiKey = "''k''" and cityName = "''Oslo''"
      and s = initial and t = "state_of (fetchWeatherData ?hanging ''k'' ''Oslo'' initial)"]
    by blast
  with hangs finished show ?thesis by blast
qed

text \<open>
  Claim C8. When the value thrown is not an instance of \<open>Error\<close>, the \<open>catch\<close>
  clause writes nothing to \<open>error\<close> and still sets \<open>weatherData\<close> and
  \<open>forecastData\<close> to \<open>null\<close>. In \<open>fetchWeatherData\<close>, where \<open>error\<close> has been
  set to \<open>null\<close> before the first request, such a throw (from either \<open>fetch\<close> or
  from either \<open>json()\<close>) ends the run with no error and no data, and the page shows
  neither a message nor the weather. In the geolocation handler such a throw (from its
  \<open>fetch\<close> or its \<open>json()\<close>) ends the run with the error it started with and no
  data, so when there was no error the page again shows neither.
\<close>

theorem non_error_thrown:
  "catch_clause NonError s = s\<lparr>weatherData := None, forecastData := None\<rparr>
   \<and> (weather_api net (trace s @ [Request (currentWeatherUrl apiKey cityName)])
         = Rejects NonError
       \<or> (\<exists>r. weather_api net (trace s @ [Request (currentWeatherUrl apiKey cityName)])
                 = Resolves r \<and> ok r \<and> json r = ParseThrows NonError)
       \<or> (\<exists>r wd. weather_api net (trace s @ [Request (currentWeatherUrl apiKey cityName)])
                 = Resolves r \<and> ok r \<and> json r = Parsed wd
            \<and> (forecast_api net (trace s @ [Request (currentWeatherUrl apiKey cityName),
                   Settle (currentWeatherUrl apiKey cityName),
                   Request (forecastUrl apiKey cityName)]) = Rejects NonError
                \<or> (\<exists>r2. forecast_api net (trace s @ [Request (currentWeatherUrl apiKey cityName),
                          Settle (currentWeatherUrl apiKey cityName),
                          Request (forecastUrl apiKey cityName)]) = Resolves r2
                       \<and> ok r2 \<and> json r2 = ParseThrows NonError)))
      \<longrightarrow> (\<exists>t. fetchWeatherData net apiKey cityName s = Done t
             \<and> error t = None \<and> weatherData t = None \<and> forecastData t = None
             \<and> render t = \<lparr>loader = False, error_text = None, weather = None\<rparr>))
   \<and> (weather_api net (trace s @ [Request (reverseGeocodeUrl toString apiKey position)])
         = Rejects NonError
       \<or> (\<exists>r. weather_api net (trace s @ [Request (reverseGeocodeUrl toString apiKey position)])
                 = Resolves r \<and> ok r \<and> json r = ParseThrows NonError)
      \<longrightarrow> (\<exists>t. onPosition net toString apiKey position s = Done t
             \<and> error t = error s \<and> weatherData t = None \<and> forecastData t = None
             \<and> (error s = None \<longrightarrow>
                  render t = \<lparr>loader = False, error_text = None, weather = None\<rparr>)))"
  by (auto simp add: run_defs onPosition_def render_def truthy_def)

theorem non_error_thrown_witness:
  "(\<exists>t. fetchWeatherData (replies (Rejects NonError) Pending) ''k'' ''Oslo''
          (oslo_state\<lparr>error := Some ''old''\<rparr>) = Done t
      \<and> error t = None \<and> weatherData t = None \<and> forecastData t = None
      \<and> render t = \<lparr>loader = False, error_text = None, weather = None\<rparr>)
   \<and> (\<exists>t. onPosition (replies (Rejects NonError) Pending) (\<lambda>n. ''0'') ''k''
          \<lparr>latitude = Finite 0, longitude = Finite 0\<rparr> oslo_state = Done t
      \<and> error t = None \<and> weatherData t = None \<and> forecastData t = None
      \<and> render t = \<lparr>loader = False, error_text = None, weather = None\<rparr>)
   \<and> (\<exists>t. onPosition (replies (Rejects NonError) Pending) (\<lambda>n. ''0'') ''k''
          \<lparr>latitude = Finite 0, longitude = Finite 0\<rparr> (oslo_state\<lparr>error := Some ''old''\<rparr>)
          = Done t
      \<and> error t = Some ''old'' \<and> weatherData t = None \<and> forecastData t = None)"
proof -
  let ?net = "replies (Rejects NonError) Pending"
  let ?here = "\<lparr>latitude = Finite 0, longitude = Finite 0\<rparr>"
  have rejects: "weather_api ?net tr = Rejects NonError" for tr
    by (simp add: replies_def)
  have none: "error oslo_state = None" and old: "error (oslo_state\<lparr>error := Some ''old''\<rparr>) = Some ''old''"
    by (simp_all add: example_defs)
  have a: "\<exists>t. fetchWeatherData ?net ''k'' ''Oslo'' (oslo_state\<lparr>error := Some ''old''\<rparr>) = Done t
      \<and> error t = None \<and> weatherData t = None \<and> forecastData t = None
      \<and> render t = \<lparr>loader = False, error_text = None, weather = None\<rparr>"
    using rejects non_error_thrown [where net = ?net and apiKey = "''k''" and cityName = "''Oslo''"
        and s = "oslo_state\<lparr>error := Some ''old''\<rparr>"]
    by blast
  have b: "\<exists>t. onPosition ?net (\<lambda>n. ''0'') ''k'' ?here oslo_state = Done t
      \<and> error t = None \<and> weatherData t = None \<and> forecastData t = None
      \<and> render t = \<lparr>loader = False, error_text = None, weather = None\<rparr>"
    using rejects none non_error_thrown [where net = ?net and apiKey = "''k''"
        and toString = "\<lambda>n. ''0''" and position = ?here and s = oslo_state]
    by auto
  have c: "\<exists>t. onPosition ?net (\<lambda>n. ''0'') ''k'' ?here (oslo_state\<lparr>error := Some ''old''\<rparr>) = Done t
      \<and> error t = Some ''old'' \<and> weatherData t = None \<and> forecastData t = None"
    using rejects old non_error_thrown [where net = ?net and apiKey = "''k''"
        and toString = "\<lambda>n. ''0''" and position = ?here
        and s = "oslo_state\<lparr>error := Some ''old''\<rparr>"]
    by auto
  from a b c show ?thesis by blast
qed

text \<open>
  Claim C9. A completed run of \<open>fetchWeatherData\<close> leaves either both data fields
  \<open>null\<close>, or both present with no error. When the current-weather response is
  \<open>ok\<close> and parsed, the forecast part of the run starts in a state where
  \<open>weatherData\<close> already holds that body; if the forecast then fails (the request is
  rejected, the response is not \<open>ok\<close>, or its body cannot be read), the run completes
  with \<open>weatherData\<close> reset to \<open>null\<close> together with \<open>forecastData\<close>.
\<close>

theorem data_fields_atomic:
  "(fetchWeatherData net apiKey cityName s = Done t \<longrightarrow>
      (weatherData t = None \<and> forecastData t = None)
      \<or> (weatherData t \<noteq> None \<and> forecastData t \<noteq> None \<and> error t = None))
   \<and> (weather_api net (trace s @ [Request (currentWeatherUrl apiKey cityName)]) = Resolves r
        \<and> ok r \<and> json r = Parsed wd \<longrightarrow>
      fetchWeatherData net apiKey cityName s =
        fetchWeatherData_forecast net apiKey cityName
          (s\<lparr>weatherData := Some wd, loading := True, error := None,
             trace := trace s @ [Request (currentWeatherUrl apiKey cityName),
               Settle (currentWeatherUrl apiKey cityName)]\<rparr>)
      \<and> ((forecast_api net (trace s @ [Request (currentWeatherUrl apiKey cityName),
               Settle (currentWeatherUrl apiKey cityName),
               Request (forecastUrl apiKey cityName)]) = Rejects e
           \<or> (\<exists>r2. forecast_api net (trace s @ [Request (currentWeatherUrl apiKey cityName),
                   Settle (currentWeatherUrl apiKey cityName),
                   Request (forecastUrl apiKey cityName)]) = Resolves r2
                 \<and> (\<not> ok r2 \<or> json r2 = ParseThrows e)))
          \<longrightarrow> (\<exists>u. fetchWeatherData net apiKey cityName s = Done u
                 \<and> weatherData u = None \<and> forecastData u = None)))"
  by (auto simp add: run_defs split: fetch.splits body.splits thrown.splits if_splits)

theorem data_fields_atomic_witness:
  "weatherData (state_of (fetchWeatherData
       (replies (Resolves (Response True (Parsed oslo))) Pending) ''k'' ''Oslo'' initial))
     = Some oslo
   \<and> (\<exists>u. fetchWeatherData
          (replies (Resolves (Response True (Parsed oslo)))
             (Resolves (Response False ParsePending)))
          ''k'' ''Oslo'' initial = Done u
        \<and> weatherData u = None \<and> forecastData u = None)"
proof -
  let ?hanging = "replies (Resolves (Response True (Parsed oslo))) Pending"
  let ?failing = "replies (Resolves (Response True (Parsed oslo)))
      (Resolves (Response False ParsePending))"
  have w: "weather_api ?hanging (trace initial @ [Request (currentWeatherUrl ''k'' ''Oslo'')])
        = Resolves (Response True (Parsed oslo))
      \<and> ok (Response True (Parsed oslo)) \<and> json (Response True (Parsed oslo)) = Parsed oslo"
    by (simp add: replies_def)
  have "fetchWeatherData ?hanging ''k'' ''Oslo'' initial =
      fetchWeatherData_forecast ?hanging ''k'' ''Oslo''
        (initial\<lparr>weatherData := Some oslo, loading := True, error := None,
           trace := trace initial @ [Request (currentWeatherUrl ''k'' ''Oslo''),
             Settle (currentWeatherUrl ''k'' ''Oslo'')]\<rparr>)"
    using w data_fields_atomic [where net = ?hanging and apiKey = "''k''"
        and cityName = "''Oslo''" and s = initial and r = "Response True (Parsed oslo)"
        and wd = oslo]
    by blast
  then have stored: "weatherData (state_of (fetchWeatherData ?hanging ''k'' ''Oslo'' initial))
      = Some oslo"
    by (simp add: fetchWeatherData_forecast_def request_def replies_def Let_def)
  have w': "weather_api ?failing (trace initial @ [Request (currentWeatherUrl ''k'' ''Oslo'')])
        = Resolves (Response True (Parsed oslo))
      \<and> ok (Response True (Parsed oslo)) \<and> json (Response True (Parsed oslo)) = Parsed oslo"
    by (simp add: replies_def)
  have f: "\<exists>r2. forecast_api ?failing (trace initial @ [Request (currentWeatherUrl ''k'' ''Oslo''),
        Settle (currentWeatherUrl ''k'' ''Oslo''), Request (forecastUrl ''k'' ''Oslo'')])
        = Resolves r2 \<and> (\<not> ok r2 \<or> json r2 = ParseThrows NonError)"
    by (simp add: replies_def)
  have "\<exists>u. fetchWeatherData ?failing ''k'' ''Oslo'' initial = Done u
      \<and> weatherData u = None \<and> forecastData u = None"
    using w' f data_fields_atomic [where net = ?failing and apiKey = "''k''"
        and cityName = "''Oslo''" and s = initial and r = "Response True (Parsed oslo)"
        and wd = oslo and e = NonError]
    by blast
  with stored show ?thesis by blast
qed

subsection \<open>The input field\<close>

text \<open>
  Claim C10. A submission with a non-blank city leaves the handler with \<open>city\<close> set to
  the empty string, the request just issued and not yet settled; whatever the network
  then answers, \<open>city\<close> is still the empty string in the state the submission reaches.
  A submission with an empty or blank city leaves \<open>city\<close> as it was.
\<close>

theorem handleSubmit_city:
  "(trim (city s) \<noteq> [] \<longrightarrow>
      city (fst (handleSubmit apiKey s)) = []
      \<and> trace (fst (handleSubmit apiKey s)) =
          trace s @ [Request (currentWeatherUrl apiKey (city s))]
      \<and> city (state_of (submit net apiKey s)) = [])
   \<and> (trim (city s) = [] \<longrightarrow>
      city (fst (handleSubmit apiKey s)) = city s
      \<and> city (state_of (submit net apiKey s)) = city s)"
  by (simp add: handleSubmit_def submit_def resume_city fetchWeatherData_begin_def request_def)

theorem handleSubmit_city_witness:
  "city (fst (handleSubmit ''k'' (initial\<lparr>city := ''Oslo''\<rparr>))) = []
   \<and> city (state_of (submit (replies (Resolves (Response True (Parsed oslo)))
        (Resolves (Response True (Parsed oslo_forecast)))) ''k'' (initial\<lparr>city := ''Oslo''\<rparr>))) = []
   \<and> city (state_of (submit (replies (Resolves (Response False ParsePending)) Pending)
        ''k'' (initial\<lparr>city := ''Oslo''\<rparr>))) = []
   \<and> city (fst (handleSubmit ''k'' (initial\<lparr>city := ''  ''\<rparr>))) = ''  ''"
proof -
  have filled: "trim (city (initial\<lparr>city := ''Oslo''\<rparr>)) \<noteq> []"
    by (simp add: trim_def isWhiteSpace_def)
  have blank: "trim (city (initial\<lparr>city := ''  ''\<rparr>)) = []"
    by (simp add: trim_def isWhiteSpace_def)
  show ?thesis
    using filled blank
      handleSubmit_city [where s = "initial\<lparr>city := ''Oslo''\<rparr>" and apiKey = "''k''"
        and net = "replies (Resolves (Response True (Parsed oslo)))
          (Resolves (Response True (Parsed oslo_forecast)))"]
      handleSubmit_city [where s = "initial\<lparr>city := ''Oslo''\<rparr>" and apiKey = "''k''"
        and net = "replies (Resolves (Response False ParsePending)) Pending"]
      handleSubmit_city [where s = "initial\<lparr>city := ''  ''\<rparr>" and apiKey = "''k''"
        and net = "replies Pending Pending"]
    by simp
qed

end
